theory Spec2Isabelle
  imports Main
begin

section \<open>The supervisory core of the node (src/server/index.js)\<close>

text \<open>
  The module keeps its handles and its heartbeat counters in module-level variables and
  talks to the world through collaborators (the console, the error sink, the HTTP client,
  the file system, the store, the worker). The model threads the variables through every
  operation as a record, appends each call to a collaborator to a list of effects in the
  order the calls are made, and takes what the world answers (clock readings, the worker's
  block counter, responses, exceptions) as an environment record per operation.
  Numbers are JavaScript numbers holding integers (block numbers, millisecond clocks):
  they are modelled as \<open>int\<close>.
\<close>

subsection \<open>Values, exceptions, effects\<close>

definition MAX_OFFLINE_TIME :: int where
  "MAX_OFFLINE_TIME = 3 * 60 * 1000"

definition KEEPALIVE_PERIOD :: int where
  \<comment> \<open>the literal of \<open>setInterval(keepalive, 30000)\<close>\<close>
  "KEEPALIVE_PERIOD = 30000"

text \<open>
  A variable that may be \<open>undefined\<close> is an option. The test \<open>if (coldWallet)\<close> is
  JavaScript truthiness: \<open>undefined\<close> and the empty string are falsy.
\<close>

definition truthy :: "string option \<Rightarrow> bool" where
  "truthy v = (case v of None \<Rightarrow> False | Some t \<Rightarrow> t \<noteq> [])"

datatype error =
    TypeError string    \<comment> \<open>raised by the language: a property of \<open>undefined\<close>, a non-constructor\<close>
  | Thrown string       \<comment> \<open>raised or rejected by a collaborator\<close>

datatype settled = Fulfilled | Rejected error

type_synonym account = string
type_synonym headers = "(string \<times> string) list"

record worker_handle =
  startBlock :: int     \<comment> \<open>the argument of \<open>Worker.build\<close>\<close>

datatype server_handle = Http | Https

datatype event =
    ConsoleLog string
  | ConsoleLogError error
  | CaptureException error
  | KeepAliveHeaders "string option" "account option" int "string option"
      \<comment> \<open>\<open>keepAliveHeaders(web3, coldWallet, account, timestamp, json, challenge)\<close>\<close>
  | Request int int headers
      \<comment> \<open>the POST to \<open>/keepalive\<close>: blockNumber, timestamp, headers\<close>
  | WriteStatus int int "string option"
      \<comment> \<open>\<open>worker.writeStatus\<close>: status, timestamp, message\<close>
  | AppendFile int int
      \<comment> \<open>a line of \<open>downtime.log\<close>: detection time, time the last block was processed\<close>
  | FindLastTrade
  | WorkerBuild int
  | GetTransactions
  | ClearInterval
  | ServerClose
  | SequelizeClose
  | WorkerClose
  | Unlink

record timer =
  period :: int       \<comment> \<open>the second argument of \<open>setInterval\<close>\<close>
  cleared :: bool     \<comment> \<open>whether \<open>clearInterval\<close> has been called on it\<close>

record state =
  server :: "server_handle option"
  coldWallet :: "string option"
  account :: "account option"
  worker :: "worker_handle option"
  hasBeenOnline :: bool
  timeSinceLastBlockUpdate :: int
  previousWorkerBlock :: int
  previousWorkerBlockTime :: int
  keepAliveInterval :: "timer option"
  db_closed :: bool
  PASSPHRASE :: "string option"        \<comment> \<open>\<open>process.env.PASSPHRASE\<close>\<close>
  effects :: "event list"

definition initial :: "int \<Rightarrow> string option \<Rightarrow> state" where
  \<comment> \<open>the module-level declarations; \<open>now\<close> is \<open>Date.now()\<close> at load, \<open>pw\<close> the environment's passphrase\<close>
  "initial now pw =
     \<lparr>server = None, coldWallet = None, account = None, worker = None,
      hasBeenOnline = False, timeSinceLastBlockUpdate = 0, previousWorkerBlock = 0,
      previousWorkerBlockTime = now, keepAliveInterval = None, db_closed = False,
      PASSPHRASE = pw, effects = []\<rparr>"

definition emit :: "event \<Rightarrow> state \<Rightarrow> state" where
  "emit ev s = s\<lparr>effects := effects s @ [ev]\<rparr>"

definition since :: "state \<Rightarrow> state \<Rightarrow> event list" where
  \<comment> \<open>the effects performed between an earlier state and a later one\<close>
  "since s s' = drop (length (effects s)) (effects s')"

subsection \<open>keepalive\<close>

record response =
  statusCode :: int
  body :: "string option option"
    \<comment> \<open>\<open>None\<close>: a falsy body; \<open>Some m\<close>: a body whose \<open>message\<close> is \<open>m\<close> (possibly undefined)\<close>

record tick_env =
  now_send :: int                          \<comment> \<open>\<open>Date.now()\<close> for the payload\<close>
  block_send :: int                        \<comment> \<open>\<open>worker.currentBlock\<close> for the payload\<close>
  challenge :: "string option"             \<comment> \<open>\<open>process.env.AURAD_CHALLENGE\<close>\<close>
  headers_result :: "error + headers"      \<comment> \<open>what \<open>keepAliveHeaders\<close> does\<close>
  request_result :: "error + response"     \<comment> \<open>what the awaited \<open>request\<close> does\<close>
  now_status :: int                        \<comment> \<open>\<open>Date.now()\<close> for the status\<close>
  writeStatus_result :: "error option"     \<comment> \<open>what \<open>worker.writeStatus\<close> does\<close>
  block_check :: int                       \<comment> \<open>\<open>worker.currentBlock\<close> in the \<open>finally\<close> block\<close>
  now_check :: int                         \<comment> \<open>\<open>Date.now()\<close> in the \<open>finally\<close> block\<close>
  now_log :: int                           \<comment> \<open>\<open>Date.now()\<close> for the downtime line\<close>
  appendFile_result :: "error option"      \<comment> \<open>what the awaited \<open>fs.appendFile\<close> does\<close>

definition message_of :: "response \<Rightarrow> string option" where
  \<comment> \<open>\<open>response.body ? response.body.message : ''\<close>\<close>
  "message_of r = (case body r of None \<Rightarrow> Some [] | Some m \<Rightarrow> m)"

definition template :: "string option \<Rightarrow> string" where
  \<comment> \<open>a value inside a template literal\<close>
  "template m = (case m of None \<Rightarrow> ''undefined'' | Some t \<Rightarrow> t)"

definition keepalive_try :: "tick_env \<Rightarrow> state \<Rightarrow> error option \<times> state" where
  \<comment> \<open>the \<open>try\<close> block: the exception it ends with, if any, and the state it leaves\<close>
  "keepalive_try e s =
     (if truthy (coldWallet s) then
        (case worker s of
           None \<Rightarrow> (Some (TypeError ''Cannot read property currentBlock of undefined''), s)
         | Some w \<Rightarrow>
             let timestamp = now_send e;
                 s1 = emit (KeepAliveHeaders (coldWallet s) (account s) timestamp (challenge e)) s
             in (case headers_result e of
                   Inl err \<Rightarrow> (Some err, s1)
                 | Inr hs \<Rightarrow>
                     let s2 = emit (Request (block_send e) timestamp hs) s1
                     in (case request_result e of
                           Inl err \<Rightarrow> (Some err, s2)
                         | Inr r \<Rightarrow>
                             let message = message_of r;
                                 s3 = (if statusCode r = 200
                                       then (emit (ConsoleLog (''STAKING ONLINE: '' @ template message)) s2)
                                              \<lparr>hasBeenOnline := True\<rparr>
                                       else emit (ConsoleLog (''STAKING OFFLINE: '' @ template message)) s2);
                                 s4 = emit (WriteStatus (statusCode r) (now_status e) message) s3
                             in (writeStatus_result e, s4))))
      else (None, (emit (ConsoleLog ''STAKING OFFLINE: no wallet configured'') s)
                    \<lparr>hasBeenOnline := True\<rparr>))"

definition keepalive_catch :: "error \<Rightarrow> state \<Rightarrow> state" where
  "keepalive_catch err s =
     emit (ConsoleLogError err) (emit (CaptureException err) (emit (ConsoleLog ''STAKING OFFLINE'') s))"

definition keepalive_finally :: "tick_env \<Rightarrow> state \<Rightarrow> settled \<times> state" where
  "keepalive_finally e s =
     (if hasBeenOnline s then
        (case worker s of
           None \<Rightarrow> (Rejected (TypeError ''Cannot read property currentBlock of undefined''), s)
         | Some w \<Rightarrow>
             let s1 = (if block_check e = previousWorkerBlock s
                       then s\<lparr>timeSinceLastBlockUpdate := now_check e - previousWorkerBlockTime s\<rparr>
                       else s\<lparr>previousWorkerBlock := block_check e,
                              previousWorkerBlockTime := now_check e\<rparr>)
             in if timeSinceLastBlockUpdate s1 > MAX_OFFLINE_TIME
                then (case appendFile_result e of
                        Some err \<Rightarrow> Rejected err
                      | None \<Rightarrow> Fulfilled,
                      emit (AppendFile (now_log e) (previousWorkerBlockTime s1)) s1)
                else (Fulfilled, s1))
      else (Fulfilled, s))"

definition keepalive :: "tick_env \<Rightarrow> state \<Rightarrow> settled \<times> state" where
  \<comment> \<open>an async function: it hands its caller a promise, here by how it settles\<close>
  "keepalive e s =
     (case keepalive_try e s of
        (None, s1) \<Rightarrow> keepalive_finally e s1
      | (Some err, s1) \<Rightarrow> keepalive_finally e (keepalive_catch err s1))"

definition startKeepAlive :: "tick_env \<Rightarrow> state \<Rightarrow> state" where
  \<comment> \<open>\<open>keepalive()\<close> is called and its promise dropped, then the timer is set\<close>
  "startKeepAlive e s =
     (snd (keepalive e s))\<lparr>keepAliveInterval := Some \<lparr>period = KEEPALIVE_PERIOD, cleared = False\<rparr>\<rparr>"

definition timer_fires :: "tick_env \<Rightarrow> state \<Rightarrow> state" where
  \<comment> \<open>the runtime calls \<open>keepalive\<close> when a period of a timer that is set and not cleared
      has passed, and drops the promise\<close>
  "timer_fires e s =
     (case keepAliveInterval s of
        None \<Rightarrow> s
      | Some t \<Rightarrow> if cleared t then s else snd (keepalive e s))"

subsection \<open>loadWallet\<close>

record settings =
  settings_coldWallet :: "string option"
  settings_hotWallet :: string
  settings_token :: string

record load_env =
  read_settings :: "error + settings"
    \<comment> \<open>\<open>JSON.parse(await fs.readFile('ipc/settings.json'))\<close>\<close>
  decrypt :: "string \<Rightarrow> string \<Rightarrow> error + account"
    \<comment> \<open>\<open>web3.eth.accounts.decrypt\<close>\<close>

definition loadWallet :: "load_env \<Rightarrow> state \<Rightarrow> state" where
  "loadWallet le s =
     (case read_settings le of
        Inl err \<Rightarrow> emit (ConsoleLog ''error loading settings.json, wrong passphrase?'') s
      | Inr st \<Rightarrow>
          let s1 = s\<lparr>coldWallet := settings_coldWallet st\<rparr>
          in (case decrypt le (settings_hotWallet st) (settings_token st) of
                Inl err \<Rightarrow> emit (ConsoleLog ''error loading settings.json, wrong passphrase?'') s1
              | Inr acc \<Rightarrow> s1\<lparr>account := Some acc, PASSPHRASE := Some []\<rparr>))"

subsection \<open>runner\<close>

record trade =
  blockNumber :: int

record runner_env =
  FORCE_SYNC :: "string option"     \<comment> \<open>\<open>process.env.FORCE_SYNC\<close>\<close>
  lastTrade :: "trade option"       \<comment> \<open>the trade with the highest block number, if any\<close>

text \<open>
  \<open>IDEX_FIRST_BLOCK\<close> is imported from a module that is not part of the sources at hand:
  it is a parameter of the model.
\<close>

definition runner :: "int \<Rightarrow> runner_env \<Rightarrow> state \<Rightarrow> state" where
  "runner IDEX_FIRST_BLOCK re s =
     (let (firstBlock, s1) =
            (if FORCE_SYNC re \<noteq> Some ''1''
             then (case lastTrade re of
                     Some t \<Rightarrow> blockNumber t - 1
                   | None \<Rightarrow> IDEX_FIRST_BLOCK,
                   emit FindLastTrade s)
             else (IDEX_FIRST_BLOCK, s))
      in emit GetTransactions
           ((emit (WorkerBuild firstBlock) s1)\<lparr>worker := Some \<lparr>startBlock = firstBlock\<rparr>\<rparr>))"

subsection \<open>buildServer\<close>

definition buildServer :: "string option \<Rightarrow> state \<Rightarrow> state" where
  \<comment> \<open>the argument is \<open>process.env.SSL\<close>; reading the key and the certificate is left out\<close>
  "buildServer ssl s = s\<lparr>server := Some (if ssl = Some ''1'' then Https else Http)\<rparr>"

subsection \<open>shutdown\<close>

text \<open>
  The function builds an array of four elements, evaluated left to right, and passes it to
  \<open>new Promise.mapSeries\<close>. Each element is a call that starts a release step. A call
  either returns a promise (which may later reject: that does not disturb the calls that
  follow) or throws, which ends the function there. \<open>server.close\<close> is called inside a
  promise executor, where a throw becomes a rejection, so the environment gives no outcome
  for it. \<open>Promise\<close> is the built-in one,
  which has no \<open>mapSeries\<close>: once the array is built, \<open>new\<close> raises a TypeError.
\<close>

datatype call = Returns settled | Throws error

record shutdown_env =
  sequelize_close :: call
  worker_close :: call
  unlink :: call

definition shutdown :: "shutdown_env \<Rightarrow> state \<Rightarrow> settled \<times> state" where
  "shutdown se s =
     (let s1 = s\<lparr>db_closed := True\<rparr>;
          s2 = (case keepAliveInterval s1 of
                  None \<Rightarrow> s1
                | Some t \<Rightarrow> emit ClearInterval (s1\<lparr>keepAliveInterval := Some (t\<lparr>cleared := True\<rparr>)\<rparr>));
          s3 = (case server s2 of None \<Rightarrow> s2 | Some h \<Rightarrow> emit ServerClose s2);
          s4 = emit SequelizeClose s3
      in (case sequelize_close se of
            Throws err \<Rightarrow> (Rejected err, s4)
          | Returns p2 \<Rightarrow>
              (case worker s4 of
                 None \<Rightarrow> (Rejected (TypeError ''Cannot read property close of undefined''), s4)
               | Some w \<Rightarrow>
                   let s5 = emit WorkerClose s4
                   in (case worker_close se of
                         Throws err \<Rightarrow> (Rejected err, s5)
                       | Returns p3 \<Rightarrow>
                           let s6 = emit Unlink s5
                           in (case unlink se of
                                 Throws err \<Rightarrow> (Rejected err, s6)
                               | Returns p4 \<Rightarrow>
                                   (Rejected (TypeError ''Promise.mapSeries is not a constructor''), s6))))))"

subsection \<open>The operations of the program\<close>

datatype op =
    LoadWallet load_env
  | BuildServer "string option"
  | Runner runner_env
  | StartKeepAlive tick_env
  | TimerFires tick_env
  | Shutdown shutdown_env

fun exec :: "int \<Rightarrow> op \<Rightarrow> state \<Rightarrow> state" where
  "exec fb (LoadWallet le) s = loadWallet le s"
| "exec fb (BuildServer ssl) s = buildServer ssl s"
| "exec fb (Runner re) s = runner fb re s"
| "exec fb (StartKeepAlive e) s = startKeepAlive e s"
| "exec fb (TimerFires e) s = timer_fires e s"
| "exec fb (Shutdown se) s = snd (shutdown se s)"

fun run :: "int \<Rightarrow> op list \<Rightarrow> state \<Rightarrow> state" where
  "run fb [] s = s"
| "run fb (x # xs) s = run fb xs (exec fb x s)"

subsection \<open>Phases of a tick\<close>

definition extends :: "state \<Rightarrow> state \<Rightarrow> bool" where
  \<comment> \<open>the later state has the effects of the earlier one, and possibly more\<close>
  "extends s s' = (take (length (effects s)) (effects s') = effects s)"

definition caught :: "tick_env \<Rightarrow> state \<Rightarrow> state" where
  \<comment> \<open>the state at the entry of the \<open>finally\<close> block\<close>
  "caught e s =
     (case fst (keepalive_try e s) of
        None \<Rightarrow> snd (keepalive_try e s)
      | Some err \<Rightarrow> keepalive_catch err (snd (keepalive_try e s)))"

subsection \<open>Kinds of effects\<close>

fun is_request :: "event \<Rightarrow> bool" where
  "is_request (Request b t hs) = True"
| "is_request ev = False"

fun is_status :: "event \<Rightarrow> bool" where
  "is_status (WriteStatus c t m) = True"
| "is_status ev = False"

fun is_downtime :: "event \<Rightarrow> bool" where
  "is_downtime (AppendFile d t) = True"
| "is_downtime ev = False"

fun is_release :: "event \<Rightarrow> bool" where
  "is_release ServerClose = True"
| "is_release SequelizeClose = True"
| "is_release WorkerClose = True"
| "is_release Unlink = True"
| "is_release ev = False"

fun is_LoadWallet :: "op \<Rightarrow> bool" where
  "is_LoadWallet (LoadWallet le) = True"
| "is_LoadWallet x = False"

subsection \<open>Sample environments\<close>

definition tick_at :: "int \<Rightarrow> int \<Rightarrow> error + response \<Rightarrow> tick_env" where
  \<comment> \<open>a tick whose clock readings are all \<open>now\<close>, which sees the worker at block \<open>b\<close> and whose
      request ends as \<open>rq\<close>; nothing else fails\<close>
  "tick_at now b rq =
     \<lparr>now_send = now, block_send = b, challenge = None, headers_result = Inr [],
      request_result = rq, now_status = now, writeStatus_result = None,
      block_check = b, now_check = now, now_log = now, appendFile_result = None\<rparr>"

definition replied :: "int \<Rightarrow> string \<Rightarrow> error + response" where
  "replied c m = Inr \<lparr>statusCode = c, body = Some (Some m)\<rparr>"

definition unreachable :: "error + response" where
  "unreachable = Inl (Thrown ''ECONNREFUSED'')"

definition all_return :: shutdown_env where
  "all_return =
     \<lparr>sequelize_close = Returns Fulfilled, worker_close = Returns Fulfilled,
      unlink = Returns Fulfilled\<rparr>"

definition wrong_passphrase :: "string option \<Rightarrow> load_env" where
  \<comment> \<open>the settings file is read, with the cold wallet \<open>cw\<close>, and the decryption fails\<close>
  "wrong_passphrase cw =
     \<lparr>read_settings =
        Inr \<lparr>settings_coldWallet = cw, settings_hotWallet = ''keystore'', settings_token = ''token''\<rparr>,
      decrypt = (\<lambda>blob token. Inl (Thrown ''Key derivation failed - possibly wrong password''))\<rparr>"

definition right_passphrase :: "string option \<Rightarrow> load_env" where
  "right_passphrase cw =
     \<lparr>read_settings =
        Inr \<lparr>settings_coldWallet = cw, settings_hotWallet = ''keystore'', settings_token = ''token''\<rparr>,
      decrypt = (\<lambda>blob token. Inr ''0xhot'')\<rparr>"

subsection \<open>Sample runs\<close>

text \<open>
  States the program reaches, used as concrete inputs below. \<open>stalled\<close>: no staking
  identity, the worker resumed after a trade at block 100, and seven ticks, thirty seconds
  apart, that all see block 100. \<open>outage\<close>: one more such tick. \<open>recovered\<close>: then a
  tick that sees block 101. \<open>staking\<close>: both wallets loaded and a first tick answered
  with 200. \<open>cut_off\<close>: then six ticks that see the same block and cannot reach the
  authority. \<open>half_loaded\<close>: the settings were
  read and the decryption failed. \<open>half_built\<close>: the start-up has built the server and
  not yet the worker.
\<close>

definition resumed :: runner_env where
  "resumed = \<lparr>FORCE_SYNC = None, lastTrade = Some \<lparr>blockNumber = 100\<rparr>\<rparr>"

definition stalled :: state where
  "stalled =
     run 0 [Runner resumed,
            StartKeepAlive (tick_at 1000 100 unreachable),
            TimerFires (tick_at 31000 100 unreachable),
            TimerFires (tick_at 61000 100 unreachable),
            TimerFires (tick_at 91000 100 unreachable),
            TimerFires (tick_at 121000 100 unreachable),
            TimerFires (tick_at 151000 100 unreachable),
            TimerFires (tick_at 181000 100 unreachable)]
       (initial 0 None)"

definition staking :: state where
  "staking =
     run 0 [LoadWallet (right_passphrase (Some ''0xc01d'')),
            Runner resumed,
            StartKeepAlive (tick_at 1000 100 (replied 200 ''ok''))]
       (initial 0 (Some ''hunter2''))"

definition half_loaded :: state where
  "half_loaded =
     run 0 [LoadWallet (wrong_passphrase (Some ''0xc01d'')),
            Runner resumed]
       (initial 0 (Some ''hunter2''))"

definition outage :: state where
  "outage = exec 0 (TimerFires (tick_at 211000 100 unreachable)) stalled"

definition half_built :: state where
  "half_built =
     run 0 [LoadWallet (right_passphrase (Some ''0xc01d'')), BuildServer None]
       (initial 0 (Some ''hunter2''))"

definition recovered :: state where
  "recovered = exec 0 (TimerFires (tick_at 241000 101 unreachable)) outage"



definition tick_unsigned :: "int \<Rightarrow> int \<Rightarrow> tick_env" where
  \<comment> \<open>a tick in which building the signed headers throws\<close>
  "tick_unsigned now b =
     (tick_at now b unreachable)
       \<lparr>headers_result := Inl (TypeError ''Cannot read property privateKey of undefined'')\<rparr>"

section \<open>Evaluating the samples\<close>

lemmas eval_defs = run.simps exec.simps runner_def startKeepAlive_def timer_fires_def
  keepalive_def keepalive_try_def keepalive_catch_def keepalive_finally_def emit_def since_def
  Let_def initial_def tick_at_def unreachable_def replied_def truthy_def resumed_def
  MAX_OFFLINE_TIME_def KEEPALIVE_PERIOD_def message_of_def template_def
  loadWallet_def right_passphrase_def wrong_passphrase_def buildServer_def tick_unsigned_def

lemma stalled_value:
  "stalled =
     \<lparr>server = None, coldWallet = None, account = None, worker = Some \<lparr>startBlock = 99\<rparr>,
      hasBeenOnline = True, timeSinceLastBlockUpdate = 180000, previousWorkerBlock = 100,
      previousWorkerBlockTime = 1000,
      keepAliveInterval = Some \<lparr>period = 30000, cleared = False\<rparr>, db_closed = False,
      PASSPHRASE = None,
      effects = [FindLastTrade, WorkerBuild 99, GetTransactions,
        ConsoleLog ''STAKING OFFLINE: no wallet configured'',
        ConsoleLog ''STAKING OFFLINE: no wallet configured'',
        ConsoleLog ''STAKING OFFLINE: no wallet configured'',
        ConsoleLog ''STAKING OFFLINE: no wallet configured'',
        ConsoleLog ''STAKING OFFLINE: no wallet configured'',
        ConsoleLog ''STAKING OFFLINE: no wallet configured'',
        ConsoleLog ''STAKING OFFLINE: no wallet configured'']\<rparr>"
  by (simp add: stalled_def eval_defs)

lemma stalled_next:
  "snd (keepalive (tick_at 181001 100 unreachable) stalled) =
     emit (AppendFile 181001 1000)
       ((emit (ConsoleLog ''STAKING OFFLINE: no wallet configured'') stalled)
          \<lparr>timeSinceLastBlockUpdate := 180001\<rparr>)"
  by (simp add: stalled_value eval_defs)

lemma outage_value:
  "outage =
     emit (AppendFile 211000 1000)
       ((emit (ConsoleLog ''STAKING OFFLINE: no wallet configured'') stalled)
          \<lparr>timeSinceLastBlockUpdate := 210000\<rparr>)"
  by (simp add: outage_def stalled_value eval_defs)

lemma staking_value:
  "staking =
     \<lparr>server = None, coldWallet = Some ''0xc01d'', account = Some ''0xhot'',
      worker = Some \<lparr>startBlock = 99\<rparr>,
      hasBeenOnline = True, timeSinceLastBlockUpdate = 0, previousWorkerBlock = 100,
      previousWorkerBlockTime = 1000,
      keepAliveInterval = Some \<lparr>period = 30000, cleared = False\<rparr>, db_closed = False,
      PASSPHRASE = Some [],
      effects = [FindLastTrade, WorkerBuild 99, GetTransactions,
        KeepAliveHeaders (Some ''0xc01d'') (Some ''0xhot'') 1000 None,
        Request 100 1000 [],
        ConsoleLog ''STAKING ONLINE: ok'',
        WriteStatus 200 1000 (Some ''ok'')]\<rparr>"
  by (simp add: staking_def eval_defs)

lemma recovered_value:
  "recovered =
     \<lparr>server = None, coldWallet = None, account = None, worker = Some \<lparr>startBlock = 99\<rparr>,
      hasBeenOnline = True, timeSinceLastBlockUpdate = 210000, previousWorkerBlock = 101,
      previousWorkerBlockTime = 241000,
      keepAliveInterval = Some \<lparr>period = 30000, cleared = False\<rparr>, db_closed = False,
      PASSPHRASE = None,
      effects = effects outage @
        [ConsoleLog ''STAKING OFFLINE: no wallet configured'', AppendFile 241000 241000]\<rparr>"
  by (simp add: recovered_def outage_value stalled_value eval_defs)


lemma half_loaded_value:
  "half_loaded =
     \<lparr>server = None, coldWallet = Some ''0xc01d'', account = None,
      worker = Some \<lparr>startBlock = 99\<rparr>,
      hasBeenOnline = False, timeSinceLastBlockUpdate = 0, previousWorkerBlock = 0,
      previousWorkerBlockTime = 0, keepAliveInterval = None, db_closed = False,
      PASSPHRASE = Some ''hunter2'',
      effects = [ConsoleLog ''error loading settings.json, wrong passphrase?'',
        FindLastTrade, WorkerBuild 99, GetTransactions]\<rparr>"
  by (simp add: half_loaded_def eval_defs)

lemma half_built_value:
  "half_built =
     \<lparr>server = Some Http, coldWallet = Some ''0xc01d'', account = Some ''0xhot'',
      worker = None,
      hasBeenOnline = False, timeSinceLastBlockUpdate = 0, previousWorkerBlock = 0,
      previousWorkerBlockTime = 0, keepAliveInterval = None, db_closed = False,
      PASSPHRASE = Some [], effects = []\<rparr>"
  by (simp add: half_built_def eval_defs)

section \<open>Effects and frame of each phase of a tick\<close>

lemma extends_iff: "extends s s' = (\<exists>xs. effects s' = effects s @ xs)"
proof
  assume "extends s s'"
  then have "effects s' = effects s @ drop (length (effects s)) (effects s')"
    unfolding extends_def by (metis append_take_drop_id)
  then show "\<exists>xs. effects s' = effects s @ xs" ..
next
  assume "\<exists>xs. effects s' = effects s @ xs"
  then show "extends s s'"
    unfolding extends_def by auto
qed

lemma extends_refl: "extends s s"
  by (simp add: extends_def)

lemma since_trans:
  assumes "extends a b" and "extends b c"
  shows "since a c = since a b @ since b c \<and> extends a c"
proof -
  from assms(1) obtain xs where b: "effects b = effects a @ xs"
    unfolding extends_iff ..
  from assms(2) obtain ys where c: "effects c = effects b @ ys"
    unfolding extends_iff ..
  show ?thesis
    by (simp add: since_def extends_def b c)
qed

lemma try_since:
  "since s (snd (keepalive_try e s)) =
     (if truthy (coldWallet s) then
        (case worker s of
           None \<Rightarrow> []
         | Some w \<Rightarrow>
             KeepAliveHeaders (coldWallet s) (account s) (now_send e) (challenge e) #
             (case headers_result e of
                Inl err \<Rightarrow> []
              | Inr hs \<Rightarrow>
                  Request (block_send e) (now_send e) hs #
                  (case request_result e of
                     Inl err \<Rightarrow> []
                   | Inr r \<Rightarrow>
                       [ConsoleLog ((if statusCode r = 200 then ''STAKING ONLINE: ''
                                     else ''STAKING OFFLINE: '') @ template (message_of r)),
                        WriteStatus (statusCode r) (now_status e) (message_of r)])))
      else [ConsoleLog ''STAKING OFFLINE: no wallet configured''])"
  by (simp add: keepalive_try_def emit_def since_def Let_def split: option.splits sum.splits)

lemma try_extends: "extends s (snd (keepalive_try e s))"
  by (simp add: keepalive_try_def emit_def extends_def Let_def split: option.splits sum.splits)

lemma try_result:
  "fst (keepalive_try e s) =
     (if truthy (coldWallet s) then
        (case worker s of
           None \<Rightarrow> Some (TypeError ''Cannot read property currentBlock of undefined'')
         | Some w \<Rightarrow>
             (case headers_result e of
                Inl err \<Rightarrow> Some err
              | Inr hs \<Rightarrow>
                  (case request_result e of
                     Inl err \<Rightarrow> Some err
                   | Inr r \<Rightarrow> writeStatus_result e)))
      else None)"
  by (simp add: keepalive_try_def Let_def split: option.splits sum.splits)

lemma try_flag:
  "hasBeenOnline (snd (keepalive_try e s)) =
     (hasBeenOnline s \<or>
      (if truthy (coldWallet s) then
         (case worker s of
            None \<Rightarrow> False
          | Some w \<Rightarrow>
              (case headers_result e of
                 Inl err \<Rightarrow> False
               | Inr hs \<Rightarrow>
                   (case request_result e of
                      Inl err \<Rightarrow> False
                    | Inr r \<Rightarrow> statusCode r = 200)))
       else True))"
  by (simp add: keepalive_try_def emit_def Let_def split: option.splits sum.splits)

lemma try_frame:
  "worker (snd (keepalive_try e s)) = worker s"
  "coldWallet (snd (keepalive_try e s)) = coldWallet s"
  "account (snd (keepalive_try e s)) = account s"
  "timeSinceLastBlockUpdate (snd (keepalive_try e s)) = timeSinceLastBlockUpdate s"
  "previousWorkerBlock (snd (keepalive_try e s)) = previousWorkerBlock s"
  "previousWorkerBlockTime (snd (keepalive_try e s)) = previousWorkerBlockTime s"
  "keepAliveInterval (snd (keepalive_try e s)) = keepAliveInterval s"
  by (simp_all add: keepalive_try_def emit_def Let_def split: option.splits sum.splits)

lemma catch_since:
  "since s (keepalive_catch err s) =
     [ConsoleLog ''STAKING OFFLINE'', CaptureException err, ConsoleLogError err]"
  by (simp add: keepalive_catch_def emit_def since_def)

lemma catch_extends: "extends s (keepalive_catch err s)"
  by (simp add: keepalive_catch_def emit_def extends_def)

lemma catch_frame:
  "hasBeenOnline (keepalive_catch err s) = hasBeenOnline s"
  "worker (keepalive_catch err s) = worker s"
  "coldWallet (keepalive_catch err s) = coldWallet s"
  "account (keepalive_catch err s) = account s"
  "timeSinceLastBlockUpdate (keepalive_catch err s) = timeSinceLastBlockUpdate s"
  "previousWorkerBlock (keepalive_catch err s) = previousWorkerBlock s"
  "previousWorkerBlockTime (keepalive_catch err s) = previousWorkerBlockTime s"
  "keepAliveInterval (keepalive_catch err s) = keepAliveInterval s"
  by (simp_all add: keepalive_catch_def emit_def)

lemma finally_since:
  "since s (snd (keepalive_finally e s)) =
     (if hasBeenOnline s \<and> worker s \<noteq> None \<and>
         MAX_OFFLINE_TIME < timeSinceLastBlockUpdate (snd (keepalive_finally e s))
      then [AppendFile (now_log e) (previousWorkerBlockTime (snd (keepalive_finally e s)))]
      else [])"
  by (simp add: keepalive_finally_def emit_def since_def Let_def split: option.splits)

lemma finally_extends: "extends s (snd (keepalive_finally e s))"
  by (simp add: keepalive_finally_def emit_def extends_def Let_def split: option.splits)

lemma finally_frame:
  "hasBeenOnline (snd (keepalive_finally e s)) = hasBeenOnline s"
  "worker (snd (keepalive_finally e s)) = worker s"
  "coldWallet (snd (keepalive_finally e s)) = coldWallet s"
  "account (snd (keepalive_finally e s)) = account s"
  "keepAliveInterval (snd (keepalive_finally e s)) = keepAliveInterval s"
  by (simp_all add: keepalive_finally_def emit_def Let_def split: option.splits)

lemma finally_counters:
  assumes "hasBeenOnline s" and "worker s = Some w"
  shows "timeSinceLastBlockUpdate (snd (keepalive_finally e s)) =
           (if block_check e = previousWorkerBlock s
            then now_check e - previousWorkerBlockTime s
            else timeSinceLastBlockUpdate s)"
    and "previousWorkerBlock (snd (keepalive_finally e s)) = block_check e"
    and "previousWorkerBlockTime (snd (keepalive_finally e s)) =
           (if block_check e = previousWorkerBlock s
            then previousWorkerBlockTime s
            else now_check e)"
  using assms
  by (simp_all add: keepalive_finally_def emit_def Let_def)


lemma keepalive_phases: "keepalive e s = keepalive_finally e (caught e s)"
  by (simp add: keepalive_def caught_def split: prod.splits option.splits)

lemma caught_since:
  "since s (caught e s) =
     since s (snd (keepalive_try e s)) @
     (case fst (keepalive_try e s) of
        None \<Rightarrow> []
      | Some err \<Rightarrow> [ConsoleLog ''STAKING OFFLINE'', CaptureException err, ConsoleLogError err])"
proof (cases "fst (keepalive_try e s)")
  case None
  then show ?thesis by (simp add: caught_def)
next
  case (Some err)
  then show ?thesis
    using since_trans [of s "snd (keepalive_try e s)" "keepalive_catch err (snd (keepalive_try e s))", OF try_extends catch_extends]
    by (simp add: caught_def catch_since)
qed

lemma caught_extends: "extends s (caught e s)"
proof (cases "fst (keepalive_try e s)")
  case None
  then show ?thesis by (simp add: caught_def try_extends)
next
  case (Some err)
  then show ?thesis
    using since_trans [of s "snd (keepalive_try e s)" "keepalive_catch err (snd (keepalive_try e s))", OF try_extends catch_extends]
    by (simp add: caught_def)
qed

lemma caught_frame:
  "hasBeenOnline (caught e s) = hasBeenOnline (snd (keepalive_try e s))"
  "worker (caught e s) = worker s"
  "coldWallet (caught e s) = coldWallet s"
  "account (caught e s) = account s"
  "timeSinceLastBlockUpdate (caught e s) = timeSinceLastBlockUpdate s"
  "previousWorkerBlock (caught e s) = previousWorkerBlock s"
  "previousWorkerBlockTime (caught e s) = previousWorkerBlockTime s"
  "keepAliveInterval (caught e s) = keepAliveInterval s"
  by (simp_all add: caught_def catch_frame try_frame split: option.splits)

lemma keepalive_since:
  "since s (snd (keepalive e s)) =
     since s (caught e s) @ since (caught e s) (snd (keepalive_finally e (caught e s)))"
  using since_trans [of s "caught e s" "snd (keepalive_finally e (caught e s))", OF caught_extends finally_extends]
  by (simp add: keepalive_phases)

lemma keepalive_extends: "extends s (snd (keepalive e s))"
  using since_trans [of s "caught e s" "snd (keepalive_finally e (caught e s))", OF caught_extends finally_extends]
  by (simp add: keepalive_phases)

lemma try_no_downtime: "filter is_downtime (since s (snd (keepalive_try e s))) = []"
  by (simp add: try_since split: option.splits sum.splits)

lemma caught_no_downtime: "filter is_downtime (since s (caught e s)) = []"
  by (simp add: caught_since try_no_downtime split: option.splits)

section \<open>First block of the scan\<close>

text \<open>
  C7. The worker is built with the first block to scan: \<open>IDEX_FIRST_BLOCK\<close> when
  \<open>FORCE_SYNC\<close> is \<open>'1'\<close>, whatever trade is stored; otherwise one less than the block
  number of the last stored trade, and \<open>IDEX_FIRST_BLOCK\<close> when no trade is stored.
\<close>

theorem runner_first_block:
  "(FORCE_SYNC re = Some ''1'' \<longrightarrow> worker (runner fb re s) = Some \<lparr>startBlock = fb\<rparr>) \<and>
   (FORCE_SYNC re \<noteq> Some ''1'' \<longrightarrow>
      (\<forall>t. lastTrade re = Some t \<longrightarrow>
         worker (runner fb re s) = Some \<lparr>startBlock = blockNumber t - 1\<rparr>) \<and>
      (lastTrade re = None \<longrightarrow> worker (runner fb re s) = Some \<lparr>startBlock = fb\<rparr>))"
  by (simp add: runner_def emit_def)

text \<open>
  The three cases at a first block of 100 and a last trade at block 500.
\<close>

theorem runner_first_block_witness:
  "worker (runner 100 \<lparr>FORCE_SYNC = Some ''1'', lastTrade = Some \<lparr>blockNumber = 500\<rparr>\<rparr> (initial 0 None))
     = Some \<lparr>startBlock = 100\<rparr> \<and>
   worker (runner 100 \<lparr>FORCE_SYNC = None, lastTrade = Some \<lparr>blockNumber = 500\<rparr>\<rparr> (initial 0 None))
     = Some \<lparr>startBlock = 499\<rparr> \<and>
   worker (runner 100 \<lparr>FORCE_SYNC = Some ''0'', lastTrade = None\<rparr> (initial 0 None))
     = Some \<lparr>startBlock = 100\<rparr>"
  using runner_first_block [of "\<lparr>FORCE_SYNC = Some ''1'', lastTrade = Some \<lparr>blockNumber = 500\<rparr>\<rparr>" 100 "initial 0 None"]
        runner_first_block [of "\<lparr>FORCE_SYNC = None, lastTrade = Some \<lparr>blockNumber = 500\<rparr>\<rparr>" 100 "initial 0 None"]
        runner_first_block [of "\<lparr>FORCE_SYNC = Some ''0'', lastTrade = None\<rparr>" 100 "initial 0 None"]
  by simp

section \<open>The flag hasBeenOnline\<close>

lemma keepalive_flag: "hasBeenOnline s \<Longrightarrow> hasBeenOnline (snd (keepalive e s))"
  by (simp add: keepalive_phases finally_frame caught_frame try_flag)

lemma exec_flag: "hasBeenOnline s \<Longrightarrow> hasBeenOnline (exec fb x s)"
  by (cases x)
     (simp_all add: keepalive_flag loadWallet_def buildServer_def runner_def startKeepAlive_def
        timer_fires_def shutdown_def emit_def Let_def
        split: sum.splits option.splits call.splits prod.splits)

lemma run_flag: "hasBeenOnline s \<Longrightarrow> hasBeenOnline (run fb xs s)"
  by (induction xs arbitrary: s) (simp_all add: exec_flag)

text \<open>
  C8. \<open>hasBeenOnline\<close> starts false, and no operation of the program, nor any sequence
  of them, takes it from true to false.
\<close>

theorem hasBeenOnline_monotonic:
  "\<not> hasBeenOnline (initial now pw) \<and>
   (hasBeenOnline s \<longrightarrow> hasBeenOnline (exec fb x s)) \<and>
   (hasBeenOnline s \<longrightarrow> hasBeenOnline (run fb xs s))"
  by (simp add: initial_def exec_flag run_flag)

text \<open>
  From \<open>stalled\<close>, where the flag is set: a tick, and a run through a failed wallet
  load, an unreachable authority, a refused keepalive and the shutdown.
\<close>

theorem hasBeenOnline_monotonic_witness:
  "hasBeenOnline stalled \<and>
   hasBeenOnline (exec 0 (TimerFires (tick_at 211000 100 unreachable)) stalled) \<and>
   hasBeenOnline (run 0 [LoadWallet (wrong_passphrase (Some ''0xc01d'')),
                         TimerFires (tick_at 211000 100 unreachable),
                         TimerFires (tick_at 241000 100 (replied 401 ''unauthorized'')),
                         Shutdown all_return] stalled)"
proof -
  have h: "hasBeenOnline stalled"
    by (simp add: stalled_value)
  show ?thesis
    using h hasBeenOnline_monotonic [of 0 None stalled 0 "TimerFires (tick_at 211000 100 unreachable)"
        "[LoadWallet (wrong_passphrase (Some ''0xc01d'')),
          TimerFires (tick_at 211000 100 unreachable),
          TimerFires (tick_at 241000 100 (replied 401 ''unauthorized'')),
          Shutdown all_return]"]
    by simp
qed

section \<open>The downtime log\<close>

text \<open>
  The guard of the append, on the state the tick leaves: a tick with a worker appends a
  line exactly when \<open>hasBeenOnline\<close> is set and the variable
  \<open>timeSinceLastBlockUpdate\<close> is strictly above 180000, whatever the exchange with the
  staking authority did; the line holds the time of detection and the time the last block
  was processed.
\<close>

lemma downtime_line_guard:
  assumes "worker s = Some w" and "s' = snd (keepalive e s)"
  shows "filter is_downtime (since s s') =
         (if hasBeenOnline s' \<and> 180000 < timeSinceLastBlockUpdate s'
          then [AppendFile (now_log e) (previousWorkerBlockTime s')] else [])"
proof -
  have "filter is_downtime (since s s') =
          filter is_downtime (since (caught e s) (snd (keepalive_finally e (caught e s))))"
    by (simp add: assms(2) keepalive_since caught_no_downtime)
  also have "\<dots> = (if hasBeenOnline s' \<and> 180000 < timeSinceLastBlockUpdate s'
          then [AppendFile (now_log e) (previousWorkerBlockTime s')] else [])"
    by (simp add: finally_since assms keepalive_phases finally_frame caught_frame MAX_OFFLINE_TIME_def)
  finally show ?thesis .
qed

text \<open>
  In \<open>stalled\<close> the staleness is exactly 180000 and nothing has been appended; a tick one
  millisecond later appends one line.
\<close>

lemma downtime_line_boundary:
  "worker stalled = Some \<lparr>startBlock = 99\<rparr> \<and>
   hasBeenOnline stalled \<and>
   timeSinceLastBlockUpdate stalled = 180000 \<and>
   filter is_downtime (effects stalled) = [] \<and>
   filter is_downtime (since stalled (snd (keepalive (tick_at 181001 100 unreachable) stalled))) =
     [AppendFile 181001 1000]"
proof -
  have w: "worker stalled = Some \<lparr>startBlock = 99\<rparr>"
    by (simp add: stalled_value)
  define s' where "s' = snd (keepalive (tick_at 181001 100 unreachable) stalled)"
  have v: "hasBeenOnline s'" "timeSinceLastBlockUpdate s' = 180001"
    "previousWorkerBlockTime s' = 1000"
    unfolding s'_def stalled_next by (simp_all add: emit_def stalled_value)
  have n: "now_log (tick_at 181001 100 unreachable) = 181001"
    by (simp add: tick_at_def)
  have "filter is_downtime (since stalled s') = [AppendFile 181001 1000]"
    using downtime_line_guard [OF w s'_def] by (simp add: v n)
  then show ?thesis
    by (simp add: s'_def stalled_value)
qed

text \<open>
  C3, at the ticks after an outage. The variable is not the staleness once the block has
  advanced. In \<open>recovered\<close> the block advanced to 101 thirty seconds ago; the next tick
  sees block 102, so the time since the block last advanced is zero, far below the
  threshold, and the tick still appends a line, with the time of detection equal to the
  time the last block was processed.
\<close>

theorem downtime_line_while_block_advances:
  "hasBeenOnline recovered \<and>
   previousWorkerBlock recovered = 101 \<and>
   previousWorkerBlockTime recovered = 241000 \<and>
   previousWorkerBlock (snd (keepalive (tick_at 271000 102 unreachable) recovered)) = 102 \<and>
   previousWorkerBlockTime (snd (keepalive (tick_at 271000 102 unreachable) recovered)) = 271000 \<and>
   filter is_downtime (since recovered (snd (keepalive (tick_at 271000 102 unreachable) recovered))) =
     [AppendFile 271000 271000]"
  by (simp add: recovered_value eval_defs)

section \<open>The status artifact\<close>

lemma try_status:
  "filter is_status (since s (snd (keepalive_try e s))) =
     (if truthy (coldWallet s) \<and> worker s \<noteq> None
      then (case headers_result e of
              Inl err \<Rightarrow> []
            | Inr hs \<Rightarrow>
                (case request_result e of
                   Inl err \<Rightarrow> []
                 | Inr r \<Rightarrow> [WriteStatus (statusCode r) (now_status e) (message_of r)]))
      else [])"
  by (simp add: try_since split: option.splits sum.splits)

text \<open>
  C5, as the code has it. A tick calls \<open>worker.writeStatus\<close> exactly when it has
  received a response, with the response's status code (200 or not), the time and the
  message; a tick without a staking identity, and a tick whose header construction or
  request throws, writes no status.
\<close>

theorem status_written_iff_response:
  "filter is_status (since s (snd (keepalive e s))) =
     (if truthy (coldWallet s) \<and> worker s \<noteq> None
      then (case headers_result e of
              Inl err \<Rightarrow> []
            | Inr hs \<Rightarrow>
                (case request_result e of
                   Inl err \<Rightarrow> []
                 | Inr r \<Rightarrow> [WriteStatus (statusCode r) (now_status e) (message_of r)]))
      else [])"
proof -
  have "filter is_status (since s (snd (keepalive e s))) =
          filter is_status (since s (snd (keepalive_try e s)))"
    by (simp add: keepalive_since caught_since finally_since split: option.splits)
  then show ?thesis
    by (simp only: try_status)
qed

text \<open>
  A 200 and a 503 are both written.
\<close>

theorem status_written_iff_response_witness:
  "filter is_status
     (since staking (snd (keepalive (tick_at 31000 101 (replied 200 ''ok'')) staking))) =
     [WriteStatus 200 31000 (Some ''ok'')] \<and>
   filter is_status
     (since staking (snd (keepalive (tick_at 31000 101 (replied 503 ''busy'')) staking))) =
     [WriteStatus 503 31000 (Some ''busy'')]"
  using status_written_iff_response [of staking "tick_at 31000 101 (replied 200 ''ok'')"]
        status_written_iff_response [of staking "tick_at 31000 101 (replied 503 ''busy'')"]
  by (simp add: staking_value tick_at_def replied_def truthy_def message_of_def)

text \<open>
  C5 as stated fails: neither a tick without a staking identity nor a tick whose request
  throws writes a status.
\<close>

theorem status_not_written_without_response:
  "filter is_status (since stalled (snd (keepalive (tick_at 181001 100 unreachable) stalled))) = [] \<and>
   filter is_status (since staking (snd (keepalive (tick_at 31000 101 unreachable) staking))) = []"
  by (simp add: stalled_value staking_value eval_defs)

section \<open>Ticks without a staking identity\<close>

text \<open>
  C6. When \<open>coldWallet\<close> is falsy, a tick makes no request and leaves \<open>hasBeenOnline\<close>
  set.
\<close>

theorem no_identity_tick:
  assumes "\<not> truthy (coldWallet s)" and "s' = snd (keepalive e s)"
  shows "filter is_request (since s s') = [] \<and> hasBeenOnline s'"
proof -
  have "filter is_request (since s (snd (keepalive_try e s))) = []"
    using assms(1) by (simp add: try_since)
  moreover have "fst (keepalive_try e s) = None"
    using assms(1) by (simp add: try_result)
  ultimately have "filter is_request (since s s') = []"
    by (simp add: assms(2) keepalive_since caught_since finally_since)
  moreover have "hasBeenOnline s'"
    using assms(1) by (simp add: assms(2) keepalive_phases finally_frame caught_frame try_flag)
  ultimately show ?thesis ..
qed

text \<open>
  The first tick of a node without settings: the flag goes from false to true.
\<close>

theorem no_identity_tick_witness:
  "\<not> truthy (coldWallet (runner 0 resumed (initial 0 None))) \<and>
   \<not> hasBeenOnline (runner 0 resumed (initial 0 None)) \<and>
   filter is_request
     (since (runner 0 resumed (initial 0 None))
        (snd (keepalive (tick_at 1000 100 unreachable) (runner 0 resumed (initial 0 None))))) = [] \<and>
   hasBeenOnline (snd (keepalive (tick_at 1000 100 unreachable) (runner 0 resumed (initial 0 None))))"
proof -
  have h: "\<not> truthy (coldWallet (runner 0 resumed (initial 0 None)))"
    by (simp add: eval_defs)
  have "\<not> hasBeenOnline (runner 0 resumed (initial 0 None))"
    by (simp add: eval_defs)
  with h no_identity_tick [OF h refl, of "tick_at 1000 100 unreachable"] show ?thesis
    by simp
qed

section \<open>A failed request\<close>











section \<open>A failed decryption\<close>

lemma exec_wallet:
  "\<not> is_LoadWallet x \<Longrightarrow>
   coldWallet (exec fb x s) = coldWallet s \<and> account (exec fb x s) = account s"
  by (cases x)
     (simp_all add: keepalive_phases finally_frame caught_frame buildServer_def runner_def
        startKeepAlive_def timer_fires_def shutdown_def emit_def Let_def
        split: option.splits call.splits prod.splits)

lemma run_wallet:
  "\<forall>x \<in> set xs. \<not> is_LoadWallet x \<Longrightarrow>
   coldWallet (run fb xs s) = coldWallet s \<and> account (run fb xs s) = account s"
  by (induction xs arbitrary: s) (simp_all add: exec_wallet)

lemma loadWallet_failed:
  assumes "read_settings le = Inr st"
    and "decrypt le (settings_hotWallet st) (settings_token st) = Inl err"
  shows "coldWallet (loadWallet le s) = settings_coldWallet st"
    and "account (loadWallet le s) = account s"
    and "PASSPHRASE (loadWallet le s) = PASSPHRASE s"
  using assms by (simp_all add: loadWallet_def emit_def Let_def)

text \<open>
  C10. \<open>loadWallet\<close> assigns \<open>coldWallet\<close> before it decrypts. When the settings hold a
  cold wallet and the decryption fails, \<open>coldWallet\<close> is set and \<open>account\<close> is still
  undefined, and no later operation changes either. Every later tick therefore starts the
  staking branch: its first effect is the call of \<open>keepAliveHeaders\<close> with the undefined
  account, and when that call or the request throws, the exception is caught as in any
  offline tick and \<open>hasBeenOnline\<close> is left as it was.
\<close>

theorem failed_decryption_keeps_staking_branch:
  assumes "read_settings le = Inr st" and "truthy (settings_coldWallet st)"
    and "decrypt le (settings_hotWallet st) (settings_token st) = Inl err"
    and "account s = None"
    and "\<forall>x \<in> set xs. \<not> is_LoadWallet x"
    and "t = run fb xs (loadWallet le s)"
    and "worker t = Some w"
    and "t' = snd (keepalive e t)"
  shows "coldWallet t = settings_coldWallet st \<and> account t = None \<and>
         take 1 (since t t') =
           [KeepAliveHeaders (settings_coldWallet st) None (now_send e) (challenge e)] \<and>
         (\<forall>err'. headers_result e = Inl err' \<longrightarrow>
            since t t' =
              [KeepAliveHeaders (settings_coldWallet st) None (now_send e) (challenge e),
               ConsoleLog ''STAKING OFFLINE'', CaptureException err', ConsoleLogError err'] @
              filter is_downtime (since t t') \<and>
            hasBeenOnline t' = hasBeenOnline t) \<and>
         (\<forall>hs err'. headers_result e = Inr hs \<and> request_result e = Inl err' \<longrightarrow>
            since t t' =
              [KeepAliveHeaders (settings_coldWallet st) None (now_send e) (challenge e),
               Request (block_send e) (now_send e) hs,
               ConsoleLog ''STAKING OFFLINE'', CaptureException err', ConsoleLogError err'] @
              filter is_downtime (since t t') \<and>
            hasBeenOnline t' = hasBeenOnline t)"
proof -
  have cw: "coldWallet t = settings_coldWallet st" and acc: "account t = None"
    using run_wallet [OF assms(5), of fb "loadWallet le s"] loadWallet_failed [OF assms(1,3), of s]
    by (simp_all add: assms(4,6))
  have tr: "truthy (coldWallet t)"
    using assms(2) by (simp add: cw)
  have d: "filter is_downtime (since (caught e t) (snd (keepalive_finally e (caught e t)))) =
      since (caught e t) (snd (keepalive_finally e (caught e t)))"
    by (simp add: finally_since)
  have split: "since t t' = since t (caught e t) @ filter is_downtime (since t t')"
    unfolding assms(8) keepalive_since filter_append caught_no_downtime d by simp
  have first: "take 1 (since t t') =
      [KeepAliveHeaders (settings_coldWallet st) None (now_send e) (challenge e)]"
    using tr assms(7)
    by (simp add: assms(8) keepalive_since caught_since try_since cw acc)
  have flag: "hasBeenOnline t' = hasBeenOnline (snd (keepalive_try e t))"
    by (simp add: assms(8) keepalive_phases finally_frame caught_frame)
  have a: "since t t' =
        [KeepAliveHeaders (settings_coldWallet st) None (now_send e) (challenge e),
         ConsoleLog ''STAKING OFFLINE'', CaptureException err', ConsoleLogError err'] @
        filter is_downtime (since t t') \<and>
      hasBeenOnline t' = hasBeenOnline t"
    if "headers_result e = Inl err'" for err'
  proof -
    have "since t (caught e t) =
        [KeepAliveHeaders (settings_coldWallet st) None (now_send e) (challenge e),
         ConsoleLog ''STAKING OFFLINE'', CaptureException err', ConsoleLogError err']"
      using tr assms(7) that by (simp add: caught_since try_since try_result cw acc)
    moreover have "hasBeenOnline t' = hasBeenOnline t"
      using tr assms(7) that by (simp add: flag try_flag)
    ultimately show ?thesis
      using split by simp
  qed
  have b: "since t t' =
        [KeepAliveHeaders (settings_coldWallet st) None (now_send e) (challenge e),
         Request (block_send e) (now_send e) hs,
         ConsoleLog ''STAKING OFFLINE'', CaptureException err', ConsoleLogError err'] @
        filter is_downtime (since t t') \<and>
      hasBeenOnline t' = hasBeenOnline t"
    if "headers_result e = Inr hs \<and> request_result e = Inl err'" for hs err'
  proof -
    have "since t (caught e t) =
        [KeepAliveHeaders (settings_coldWallet st) None (now_send e) (challenge e),
         Request (block_send e) (now_send e) hs,
         ConsoleLog ''STAKING OFFLINE'', CaptureException err', ConsoleLogError err']"
      using tr assms(7) that by (simp add: caught_since try_since try_result cw acc)
    moreover have "hasBeenOnline t' = hasBeenOnline t"
      using tr assms(7) that by (simp add: flag try_flag)
    ultimately show ?thesis
      using split by simp
  qed
  from cw acc first a b show ?thesis
    by blast
qed

text \<open>
  The first tick after a wrong passphrase, with a header construction that throws.
\<close>

theorem failed_decryption_keeps_staking_branch_witness:
  "coldWallet half_loaded = Some ''0xc01d'' \<and> account half_loaded = None \<and>
   worker half_loaded = Some \<lparr>startBlock = 99\<rparr> \<and>
   since half_loaded (snd (keepalive (tick_unsigned 1000 100) half_loaded)) =
     [KeepAliveHeaders (Some ''0xc01d'') None 1000 None,
      ConsoleLog ''STAKING OFFLINE'',
      CaptureException (TypeError ''Cannot read property privateKey of undefined''),
      ConsoleLogError (TypeError ''Cannot read property privateKey of undefined'')] \<and>
   \<not> hasBeenOnline (snd (keepalive (tick_unsigned 1000 100) half_loaded))"
proof -
  let ?le = "wrong_passphrase (Some ''0xc01d'')"
  let ?st = "\<lparr>settings_coldWallet = Some ''0xc01d'', settings_hotWallet = ''keystore'',
              settings_token = ''token''\<rparr>"
  let ?e = "tick_unsigned 1000 100"
  have h1: "read_settings ?le = Inr ?st"
    by (simp add: wrong_passphrase_def)
  have h2: "truthy (settings_coldWallet ?st)"
    by (simp add: truthy_def)
  have h3: "decrypt ?le (settings_hotWallet ?st) (settings_token ?st) =
      Inl (Thrown ''Key derivation failed - possibly wrong password'')"
    by (simp add: wrong_passphrase_def)
  have h4: "account (initial 0 (Some ''hunter2'')) = None"
    by (simp add: initial_def)
  have h5: "\<forall>x \<in> set [Runner resumed]. \<not> is_LoadWallet x"
    by simp
  have h6: "half_loaded = run 0 [Runner resumed] (loadWallet ?le (initial 0 (Some ''hunter2'')))"
    by (simp add: half_loaded_def)
  have h7: "worker half_loaded = Some \<lparr>startBlock = 99\<rparr>"
    by (simp add: half_loaded_value)
  have d: "filter is_downtime (since half_loaded (snd (keepalive ?e half_loaded))) = []"
    by (simp add: half_loaded_value eval_defs)
  have v: "headers_result ?e = Inl (TypeError ''Cannot read property privateKey of undefined'')"
    "now_send ?e = 1000" "challenge ?e = None" "\<not> hasBeenOnline half_loaded"
    by (simp_all add: tick_unsigned_def tick_at_def half_loaded_value)
  from failed_decryption_keeps_staking_branch [OF h1 h2 h3 h4 h5 h6 h7 refl, of ?e] h7 d v
  show ?thesis
    by simp
qed

section \<open>Shutdown\<close>

text \<open>
  With a server and a worker, and calls that return, the four release steps are started
  in order, whether their promises are fulfilled or rejected.
\<close>

lemma shutdown_starts_every_step:
  assumes "server s = Some h" and "worker s = Some w"
    and "sequelize_close se = Returns p2" and "worker_close se = Returns p3"
    and "unlink se = Returns p4"
  shows "filter is_release (since s (snd (shutdown se s))) =
    [ServerClose, SequelizeClose, WorkerClose, Unlink]"
  using assms by (simp add: shutdown_def emit_def since_def Let_def split: option.splits)

text \<open>
  C1, at a shutdown before the worker is built. \<open>worker.close()\<close> raises a TypeError
  on the undefined worker: the worker is not closed, \<open>ipc/status.json\<close> is not removed,
  and the function rejects.
\<close>

theorem shutdown_without_worker:
  "filter is_release (since half_built (snd (shutdown all_return half_built))) =
     [ServerClose, SequelizeClose] \<and>
   fst (shutdown all_return half_built) =
     Rejected (TypeError ''Cannot read property close of undefined'')"
  by (simp add: half_built_value shutdown_def all_return_def emit_def since_def Let_def)

section \<open>Staleness when the block advances\<close>

text \<open>
  C2, at the tick after an outage. In \<open>outage\<close> the worker has been at block 100 for
  210000 ms. The next tick sees block 101: it records the block and the time, leaves
  \<open>timeSinceLastBlockUpdate\<close> at 210000 instead of zero, and appends another downtime
  line.
\<close>

theorem staleness_kept_when_block_advances:
  "previousWorkerBlock outage = 100 \<and>
   timeSinceLastBlockUpdate outage = 210000 \<and>
   previousWorkerBlock (snd (keepalive (tick_at 241000 101 unreachable) outage)) = 101 \<and>
   previousWorkerBlockTime (snd (keepalive (tick_at 241000 101 unreachable) outage)) = 241000 \<and>
   timeSinceLastBlockUpdate (snd (keepalive (tick_at 241000 101 unreachable) outage)) = 210000 \<and>
   filter is_downtime (since outage (snd (keepalive (tick_at 241000 101 unreachable) outage))) =
     [AppendFile 241000 241000]"
  by (simp add: outage_value stalled_value eval_defs)

section \<open>The passphrase\<close>

lemma loadWallet_passphrase:
  "PASSPHRASE (loadWallet le s) =
     (case read_settings le of
        Inl err \<Rightarrow> PASSPHRASE s
      | Inr st \<Rightarrow>
          (case decrypt le (settings_hotWallet st) (settings_token st) of
             Inl err \<Rightarrow> PASSPHRASE s
           | Inr acc \<Rightarrow> Some []))"
  by (simp add: loadWallet_def emit_def Let_def split: sum.splits)

text \<open>
  C9, at a wrong passphrase. \<open>process.env.PASSPHRASE\<close> is emptied after a decryption
  that succeeds, and is left as it was after one that fails.
\<close>

theorem passphrase_kept_when_decryption_fails:
  "PASSPHRASE (loadWallet (wrong_passphrase (Some ''0xc01d'')) (initial 0 (Some ''hunter2''))) =
     Some ''hunter2'' \<and>
   PASSPHRASE (loadWallet (right_passphrase (Some ''0xc01d'')) (initial 0 (Some ''hunter2''))) =
     Some []"
  by (simp add: eval_defs)

end
